theory Spec2Isabelle
  imports Main "HOL-Library.Word"
begin

unbundle bit_operations_syntax

section \<open>Shared types\<close>

type_synonym bytes = "8 word list"

text \<open>\<open>net.HardwareAddr\<close> is a byte slice.\<close>

type_synonym mac = "8 word list"

text \<open>The datapath identifier of a switch (\<open>Manager.DPID\<close>, \<open>Device.ID()\<close>).\<close>

type_synonym dpid = "64 word"

text \<open>
  Every error value the two source files create or hand on. \<open>External\<close> stands for an
  error produced by a collaborator that is not part of the sources (the factory, the
  marshaller, the socket); the other constructors are the errors the sources build
  themselves: \<open>ErrDisconnected\<close>, the two \<open>fmt.Errorf\<close> of the device manager and of
  \<open>ProcessEvent\<close>, and the wrapping \<open>fmt.Errorf("failed to switch a packet: %v", err)\<close>.
\<close>

datatype error =
    ErrDisconnected
  | UnsupportedVersion "8 word"
  | External string
  | FailedToSwitch error
  | PortNotFound "32 word" dpid

section \<open>The device manager (cherryd/internal/device/manager.go)\<close>

text \<open>\<open>openflow.HelloMessage\<close>: the handler reads its \<open>Version\<close> byte only.\<close>

record HelloMessage =
  Version :: "8 word"

text \<open>
  \<open>handleHelloMessage\<close>: \<open>if msg.Version < 0x01 { return fmt.Errorf(...) }; return nil\<close>.
  The receiver is not read.
\<close>

definition handleHelloMessage :: "HelloMessage \<Rightarrow> error option" where
  "handleHelloMessage msg =
     (if Version msg < 0x01 then Some (UnsupportedVersion (Version msg)) else None)"

text \<open>\<open>openflow.FlowAction\<close>; the manager builds \<open>FlowActionOutput{Port: n}\<close> values.\<close>

datatype FlowAction = FlowActionOutput "16 word"

datatype FlowModCommand =
  OFPFC_ADD | OFPFC_MODIFY | OFPFC_MODIFY_STRICT | OFPFC_DELETE | OFPFC_DELETE_STRICT

text \<open>
  \<open>openflow.FlowModifyFlag\<close>; the two fields the manager names. A Go composite literal
  leaves every field it does not name at its zero value.
\<close>

record FlowModifyFlag =
  SendFlowRemoved :: bool
  CheckOverlap :: bool

text \<open>
  \<open>FlowRule\<close> of manager.go. The match is a pointer to an \<open>openflow.FlowMatch\<close>, which
  the manager never looks into: it is a type parameter here.
\<close>

record 'm FlowRule =
  Match :: 'm
  Actions :: "FlowAction list"
  IdleTimeout :: "16 word"
  HardTimeout :: "16 word"

text \<open>
  \<open>openflow.FlowModifyMessage\<close>, with the fields the manager's two composite literals
  name. \<open>RemoveFlowRule\<close> names the match and the command only, so the others hold
  Go's zero values there.
\<close>

record 'm FlowModifyMessage =
  fmm_Match :: 'm
  fmm_Command :: FlowModCommand
  fmm_IdleTimeout :: "16 word"
  fmm_HardTimeout :: "16 word"
  fmm_Flags :: FlowModifyFlag
  fmm_Actions :: "FlowAction list"

datatype 'm request =
    FlowModifyRequest "'m FlowModifyMessage"
  | PacketOutRequest "16 word" "FlowAction list" bytes

text \<open>
  Modelled from the spec: \<open>openflow.Transceiver\<close> is not among the sources. A
  transceiver keeps, in order, every message a send routine was called with, and a send
  returns the fault of the session (none while the session is healthy).
\<close>

record 'm Transceiver =
  handed :: "'m request list"
  fault :: "error option"

definition SendFlowModifyMessage ::
  "'m Transceiver \<Rightarrow> 'm FlowModifyMessage \<Rightarrow> error option \<times> 'm Transceiver" where
  "SendFlowModifyMessage t mod' =
     (fault t, t\<lparr>handed := handed t @ [FlowModifyRequest mod']\<rparr>)"

definition SendPacketOutMessage ::
  "'m Transceiver \<Rightarrow> 16 word \<Rightarrow> FlowAction list \<Rightarrow> bytes \<Rightarrow> error option \<times> 'm Transceiver" where
  "SendPacketOutMessage t inPort' actions packet =
     (fault t, t\<lparr>handed := handed t @ [PacketOutRequest inPort' actions packet]\<rparr>)"

text \<open>
  \<open>Manager\<close>: the \<open>openflow\<close> field is the transceiver pointer, \<open>nil\<close> before \<open>Run\<close> sets
  it and again after the session has ended (\<open>r.openflow = nil\<close>).
\<close>

record 'm Manager =
  openflow :: "'m Transceiver option"
  DPID :: dpid
  AuxID :: "8 word"
  NumBuffers :: "32 word"
  NumTables :: "8 word"

text \<open>\<open>InstallFlowRule\<close>, \<open>RemoveFlowRule\<close> and \<open>SendPacketOut\<close> of manager.go.\<close>

definition InstallFlowRule ::
  "'m Manager \<Rightarrow> 'm FlowRule \<Rightarrow> error option \<times> 'm Manager" where
  "InstallFlowRule r flow =
     (case openflow r of
        None \<Rightarrow> (Some ErrDisconnected, r)
      | Some t \<Rightarrow>
          (let mod' = \<lparr> fmm_Match = Match flow,
                        fmm_Command = OFPFC_ADD,
                        fmm_IdleTimeout = IdleTimeout flow,
                        fmm_HardTimeout = HardTimeout flow,
                        fmm_Flags = \<lparr> SendFlowRemoved = True, CheckOverlap = True \<rparr>,
                        fmm_Actions = Actions flow \<rparr>
           in case SendFlowModifyMessage t mod' of
                (err, t') \<Rightarrow> (err, r\<lparr>openflow := Some t'\<rparr>)))"

definition RemoveFlowRule ::
  "'m Manager \<Rightarrow> 'm \<Rightarrow> error option \<times> 'm Manager" where
  "RemoveFlowRule r match =
     (case openflow r of
        None \<Rightarrow> (Some ErrDisconnected, r)
      | Some t \<Rightarrow>
          (let mod' = \<lparr> fmm_Match = match,
                        fmm_Command = OFPFC_DELETE,
                        fmm_IdleTimeout = 0,
                        fmm_HardTimeout = 0,
                        fmm_Flags = \<lparr> SendFlowRemoved = False, CheckOverlap = False \<rparr>,
                        fmm_Actions = [] \<rparr>
           in case SendFlowModifyMessage t mod' of
                (err, t') \<Rightarrow> (err, r\<lparr>openflow := Some t'\<rparr>)))"

definition SendPacketOut ::
  "'m Manager \<Rightarrow> 16 word \<Rightarrow> FlowAction list \<Rightarrow> bytes \<Rightarrow> error option \<times> 'm Manager" where
  "SendPacketOut r inPort' actions packet =
     (case openflow r of
        None \<Rightarrow> (Some ErrDisconnected, r)
      | Some t \<Rightarrow>
          (case SendPacketOutMessage t inPort' actions packet of
             (err, t') \<Rightarrow> (err, r\<lparr>openflow := Some t'\<rparr>)))"

text \<open>What a manager has handed to its transceiver so far (nothing when it has none).\<close>

definition handed_by :: "'m Manager \<Rightarrow> 'm request list" where
  "handed_by r = (case openflow r of None \<Rightarrow> [] | Some t \<Rightarrow> handed t)"

section \<open>The L2 switching policy (package l2switch)\<close>

subsection \<open>The network model the policy reads\<close>

text \<open>
  Modelled from the spec: package \<open>network\<close> (\<open>Device\<close>, \<open>Port\<close>, \<open>Node\<close>, \<open>Finder\<close>) is
  not among the sources. The policy reads a device through \<open>ID()\<close>, \<open>FlowTableID()\<close>,
  \<open>Port(number)\<close> and \<open>SendMessage\<close>, a port through \<open>Device()\<close>, \<open>Number()\<close> and
  \<open>Nodes()\<close>, and a node through \<open>MAC()\<close> and \<open>Port()\<close>. A device carries its port table
  as an association list from port number to the MACs of the nodes learned behind the
  port (the policy reads the nodes of a port through \<open>MAC()\<close> only).
\<close>

record Device =
  dev_ID :: dpid
  dev_FlowTableID :: "8 word"
  dev_Ports :: "(32 word \<times> mac list) list"

record Port =
  port_Device :: Device
  port_Number :: "32 word"
  port_Nodes :: "mac list"

record Node =
  node_MAC :: mac
  node_Port :: Port

text \<open>\<open>device.Port(number)\<close>: the port of that number, \<open>nil\<close> when the device has none.\<close>

definition dev_Port :: "Device \<Rightarrow> 32 word \<Rightarrow> Port option" where
  "dev_Port d n =
     (case map_of (dev_Ports d) n of
        None \<Rightarrow> None
      | Some ms \<Rightarrow> Some \<lparr> port_Device = d, port_Number = n, port_Nodes = ms \<rparr>)"

text \<open>
  \<open>network.Finder\<close>, the topology queries of the policy. \<open>Path\<close> yields a slice of port
  pairs \<open>v[0], v[1]\<close>; \<open>None\<close> is the \<open>nil\<close> slice.
\<close>

record Finder =
  find_Node :: "mac \<Rightarrow> Node option"
  find_Path :: "dpid \<Rightarrow> dpid \<Rightarrow> (Port \<times> Port) list option"
  find_IsEdge :: "Port \<Rightarrow> bool"
  find_Devices :: "Device list"

text \<open>\<open>len\<close> and \<open>range\<close> treat a \<open>nil\<close> slice as the empty one.\<close>

fun slice :: "'a list option \<Rightarrow> 'a list" where
  "slice None = []"
| "slice (Some xs) = xs"

text \<open>\<open>protocol.Ethernet\<close>, with the fields the policy reads.\<close>

record Ethernet =
  SrcMAC :: mac
  DstMAC :: mac
  Type :: "16 word"
  Payload :: bytes

text \<open>\<open>openflow.PortStatus\<close>, read through \<open>Port().Number()\<close>, \<open>IsPortDown()\<close>, \<open>IsLinkDown()\<close>.\<close>

record PortStatus =
  ps_Number :: "32 word"
  ps_IsPortDown :: bool
  ps_IsLinkDown :: bool

subsection \<open>The messages the policy builds\<close>

text \<open>
  \<open>openflow.NewInPort()\<close> followed by \<open>SetValue(n)\<close> or \<open>SetController()\<close>, and
  \<open>openflow.NewOutPort()\<close> followed by \<open>SetValue(n)\<close> or \<open>SetFlood()\<close>.
\<close>

datatype InPort = InPort_Value "32 word" | InPort_Controller

datatype OutPort = OutPort_Value "32 word" | OutPort_Flood

text \<open>
  Modelled from the spec: the interfaces \<open>openflow.Action\<close>, \<open>Match\<close>, \<open>Instruction\<close>,
  \<open>PacketOut\<close>, \<open>FlowMod\<close> and \<open>Factory\<close> are not among the sources. Each object is a
  record of the properties the policy's setters write; a property no setter has written
  is \<open>None\<close> for an optional part (a match field left \<open>None\<close> is wildcarded) and Go's
  zero value for a number.
\<close>

record Action =
  act_OutPort :: "OutPort option"

record Match =
  m_InPort :: "InPort option"
  m_EtherType :: "16 word option"
  m_SrcMAC :: "mac option"
  m_DstMAC :: "mac option"

record Instruction =
  inst_ApplyAction :: "Action option"

record PacketOut =
  po_InPort :: "InPort option"
  po_Action :: "Action option"
  po_Data :: bytes

datatype FlowCommand = FlowAdd | FlowDelete

record FlowMod =
  fm_Command :: FlowCommand
  fm_Cookie :: "64 word"
  fm_CookieMask :: "64 word"
  fm_TableID :: "8 word"
  fm_IdleTimeout :: "16 word"
  fm_Priority :: "16 word"
  fm_FlowMatch :: Match
  fm_FlowInstruction :: "Instruction option"

datatype message = MsgPacketOut PacketOut | MsgFlowMod FlowMod

text \<open>The match no setter has touched: every field wildcarded.\<close>

definition wildcard :: Match where
  "wildcard = \<lparr> m_InPort = None, m_EtherType = None, m_SrcMAC = None, m_DstMAC = None \<rparr>"

text \<open>
  Modelled from the spec: a factory constructor returns an error or a fresh object. The
  record says, per constructor, which error it returns (\<open>None\<close>: it succeeds).
\<close>

record Factory =
  fails_NewAction :: "error option"
  fails_NewMatch :: "error option"
  fails_NewInstruction :: "error option"
  fails_NewPacketOut :: "error option"
  fails_NewFlowMod :: "error option"

definition NewAction :: "Factory \<Rightarrow> error + Action" where
  "NewAction f =
     (case fails_NewAction f of Some e \<Rightarrow> Inl e | None \<Rightarrow> Inr \<lparr> act_OutPort = None \<rparr>)"

definition NewMatch :: "Factory \<Rightarrow> error + Match" where
  "NewMatch f = (case fails_NewMatch f of Some e \<Rightarrow> Inl e | None \<Rightarrow> Inr wildcard)"

definition NewInstruction :: "Factory \<Rightarrow> error + Instruction" where
  "NewInstruction f =
     (case fails_NewInstruction f of
        Some e \<Rightarrow> Inl e
      | None \<Rightarrow> Inr \<lparr> inst_ApplyAction = None \<rparr>)"

definition NewPacketOut :: "Factory \<Rightarrow> error + PacketOut" where
  "NewPacketOut f =
     (case fails_NewPacketOut f of
        Some e \<Rightarrow> Inl e
      | None \<Rightarrow> Inr \<lparr> po_InPort = None, po_Action = None, po_Data = [] \<rparr>)"

definition NewFlowMod :: "Factory \<Rightarrow> FlowCommand \<Rightarrow> error + FlowMod" where
  "NewFlowMod f cmd =
     (case fails_NewFlowMod f of
        Some e \<Rightarrow> Inl e
      | None \<Rightarrow>
          Inr \<lparr> fm_Command = cmd, fm_Cookie = 0, fm_CookieMask = 0, fm_TableID = 0,
                fm_IdleTimeout = 0, fm_Priority = 0, fm_FlowMatch = wildcard,
                fm_FlowInstruction = None \<rparr>)"

subsection \<open>The world the policy acts on\<close>

text \<open>
  What the logger receives: the level and, in place of the formatted string, which of
  the policy's messages it is together with the values formatted into it.
\<close>

datatype log_text =
    NotFoundPath mac mac
  | Broadcasting mac
  | CleaningUp dpid "32 word"
  | RemovingNode mac
  | FailedNode mac error
  | RemovingAllFlows
  | FailedDevice dpid error
  | RemovingNodeOnDevice mac dpid
  | RemovingOnDevice dpid

datatype log_entry = Debug log_text | Err log_text

text \<open>
  Modelled from the spec: \<open>Device.SendMessage\<close> is not among the sources. The world
  keeps, in order, every call of \<open>SendMessage\<close> (the device, the message and what the
  call returned) and every log entry. Whether a send fails is outside the policy's
  control: \<open>send_result n\<close> is what the \<open>n\<close>-th call of \<open>SendMessage\<close> returns.
\<close>

record world =
  sends :: "(dpid \<times> message \<times> error option) list"
  logged :: "log_entry list"
  send_result :: "nat \<Rightarrow> error option"

definition SendMessage :: "Device \<Rightarrow> message \<Rightarrow> world \<Rightarrow> error option \<times> world" where
  "SendMessage d m w =
     (let r = send_result w (length (sends w))
      in (r, w\<lparr>sends := sends w @ [(dev_ID d, m, r)]\<rparr>))"

definition Log :: "log_entry \<Rightarrow> world \<Rightarrow> world" where
  "Log e w = w\<lparr>logged := logged w @ [e]\<rparr>"

subsection \<open>Sending a packet\<close>

text \<open>\<open>flood\<close>: a PACKET_OUT of the packet, in-port the ingress port, one action, FLOOD.\<close>

definition flood :: "Factory \<Rightarrow> Port \<Rightarrow> bytes \<Rightarrow> world \<Rightarrow> error option \<times> world" where
  "flood f ingress' packet w =
     (let inPort' = InPort_Value (port_Number ingress');
          outPort' = OutPort_Flood
      in case NewAction f of
           Inl err \<Rightarrow> (Some err, w)
         | Inr action0 \<Rightarrow>
             (let action = action0\<lparr>act_OutPort := Some outPort'\<rparr>
              in case NewPacketOut f of
                   Inl err \<Rightarrow> (Some err, w)
                 | Inr out0 \<Rightarrow>
                     (let out = out0\<lparr>po_InPort := Some inPort',
                                      po_Action := Some action,
                                      po_Data := packet\<rparr>
                      in SendMessage (port_Device ingress') (MsgPacketOut out) w)))"

text \<open>\<open>packetout\<close>: a PACKET_OUT of the packet out of the egress port, in-port CONTROLLER.\<close>

definition packetout :: "Factory \<Rightarrow> Port \<Rightarrow> bytes \<Rightarrow> world \<Rightarrow> error option \<times> world" where
  "packetout f egress' packet w =
     (let inPort' = InPort_Controller;
          outPort' = OutPort_Value (port_Number egress')
      in case NewAction f of
           Inl err \<Rightarrow> (Some err, w)
         | Inr action0 \<Rightarrow>
             (let action = action0\<lparr>act_OutPort := Some outPort'\<rparr>
              in case NewPacketOut f of
                   Inl err \<Rightarrow> (Some err, w)
                 | Inr out0 \<Rightarrow>
                     (let out = out0\<lparr>po_InPort := Some inPort',
                                      po_Action := Some action,
                                      po_Data := packet\<rparr>
                      in SendMessage (port_Device egress') (MsgPacketOut out) w)))"

text \<open>\<open>isBroadcast\<close>: \<open>bytes.Compare(eth.DstMAC, {0xFF, ... 0xFF}) == 0\<close>.\<close>

definition isBroadcast :: "Ethernet \<Rightarrow> bool" where
  "isBroadcast eth = (DstMAC eth = [0xFF, 0xFF, 0xFF, 0xFF, 0xFF, 0xFF])"

subsection \<open>Installing flows\<close>

record flowParam =
  device :: Device
  etherType :: "16 word"
  inPort :: "32 word"
  outPort :: "32 word"
  srcMAC :: mac
  dstMAC :: mac

text \<open>
  \<open>installFlow\<close>: the constructors are called in the source's order (match, action,
  instruction, flow-mod) and the first failure is returned.
\<close>

definition installFlow :: "Factory \<Rightarrow> flowParam \<Rightarrow> world \<Rightarrow> error option \<times> world" where
  "installFlow f p w =
     (let inPort' = InPort_Value (inPort p)
      in case NewMatch f of
           Inl err \<Rightarrow> (Some err, w)
         | Inr match0 \<Rightarrow>
             (let match = match0\<lparr>m_InPort := Some inPort',
                                  m_EtherType := Some (etherType p),
                                  m_SrcMAC := Some (srcMAC p),
                                  m_DstMAC := Some (dstMAC p)\<rparr>;
                  outPort' = OutPort_Value (outPort p)
              in case NewAction f of
                   Inl err \<Rightarrow> (Some err, w)
                 | Inr action0 \<Rightarrow>
                     (let action = action0\<lparr>act_OutPort := Some outPort'\<rparr>
                      in case NewInstruction f of
                           Inl err \<Rightarrow> (Some err, w)
                         | Inr inst0 \<Rightarrow>
                             (let inst = inst0\<lparr>inst_ApplyAction := Some action\<rparr>
                              in case NewFlowMod f FlowAdd of
                                   Inl err \<Rightarrow> (Some err, w)
                                 | Inr flow0 \<Rightarrow>
                                     (let flow = flow0\<lparr>fm_TableID := dev_FlowTableID (device p),
                                                        fm_IdleTimeout := 30,
                                                        fm_Priority := 10,
                                                        fm_FlowMatch := match,
                                                        fm_FlowInstruction := Some inst\<rparr>
                                      in SendMessage (device p) (MsgFlowMod flow) w)))))"

text \<open>\<open>setFlowRule\<close>: \<open>installFlow(f, p)\<close> under "Forward", and once more under "Backward".\<close>

definition setFlowRule :: "Factory \<Rightarrow> flowParam \<Rightarrow> world \<Rightarrow> error option \<times> world" where
  "setFlowRule f p w =
     (case installFlow f p w of
        (Some err, w') \<Rightarrow> (Some err, w')
      | (None, w') \<Rightarrow> installFlow f p w')"

subsection \<open>Switching a packet\<close>

record switchParam =
  factory :: Factory
  finder :: Finder
  ethernet :: Ethernet
  ingress :: Port
  egress :: Port
  rawPacket :: bytes

text \<open>
  The \<open>for _, v := range path\<close> loop of \<open>switching\<close>, carrying the variable \<open>inPort\<close>:
  it yields the error that stopped it, or the value of \<open>inPort\<close> after the last hop.
\<close>

fun switching_loop ::
  "switchParam \<Rightarrow> 32 word \<Rightarrow> (Port \<times> Port) list \<Rightarrow> world \<Rightarrow> (error + 32 word) \<times> world" where
  "switching_loop p inPort' [] w = (Inr inPort', w)"
| "switching_loop p inPort' (v # path) w =
     (let param = \<lparr> device = port_Device (fst v),
                     etherType = Type (ethernet p),
                     inPort = inPort',
                     outPort = port_Number (fst v),
                     srcMAC = SrcMAC (ethernet p),
                     dstMAC = DstMAC (ethernet p) \<rparr>
      in case setFlowRule (factory p) param w of
           (Some err, w') \<Rightarrow> (Inl err, w')
         | (None, w') \<Rightarrow> switching_loop p (port_Number (snd v)) path w')"

definition switching :: "switchParam \<Rightarrow> world \<Rightarrow> error option \<times> world" where
  "switching p w =
     (let path = find_Path (finder p) (dev_ID (port_Device (ingress p)))
                                      (dev_ID (port_Device (egress p)))
      in if path = None \<or> length (slice path) = 0
         then (None, Log (Debug (NotFoundPath (SrcMAC (ethernet p)) (DstMAC (ethernet p)))) w)
         else
           (case switching_loop p (port_Number (ingress p)) (slice path) w of
              (Inl err, w') \<Rightarrow> (Some err, w')
            | (Inr inPort', w') \<Rightarrow>
                (let param = \<lparr> device = port_Device (egress p),
                                etherType = Type (ethernet p),
                                inPort = inPort',
                                outPort = port_Number (egress p),
                                srcMAC = SrcMAC (ethernet p),
                                dstMAC = DstMAC (ethernet p) \<rparr>
                 in case setFlowRule (factory p) param w' of
                      (Some err, w'') \<Rightarrow> (Some err, w'')
                    | (None, w'') \<Rightarrow> packetout (factory p) (egress p) (rawPacket p) w'')))"

definition localSwitching :: "switchParam \<Rightarrow> world \<Rightarrow> error option \<times> world" where
  "localSwitching p w =
     (let param = \<lparr> device = port_Device (ingress p),
                     etherType = Type (ethernet p),
                     inPort = port_Number (ingress p),
                     outPort = port_Number (egress p),
                     srcMAC = SrcMAC (ethernet p),
                     dstMAC = DstMAC (ethernet p) \<rparr>
      in case setFlowRule (factory p) param w of
           (Some err, w') \<Rightarrow> (Some err, w')
         | (None, w') \<Rightarrow> packetout (factory p) (egress p) (rawPacket p) w')"

text \<open>
  \<open>ProcessPacket\<close>, returning \<open>(drop, err)\<close>. \<open>eth.MarshalBinary()\<close> belongs to package
  \<open>protocol\<close>, which is not among the sources: the marshaller is the parameter \<open>marshal\<close>.
\<close>

definition ProcessPacket ::
  "(Ethernet \<Rightarrow> error + bytes) \<Rightarrow> Factory \<Rightarrow> Finder \<Rightarrow> Ethernet \<Rightarrow> Port \<Rightarrow> world
     \<Rightarrow> (bool \<times> error option) \<times> world" where
  "ProcessPacket marshal factory' finder' eth ingress' w =
     (case marshal eth of
        Inl err \<Rightarrow> ((False, Some err), w)
      | Inr packet \<Rightarrow>
          (let dstNode = find_Node finder' (DstMAC eth)
           in if dstNode = None \<or> isBroadcast eth
              then (case flood factory' ingress' packet (Log (Debug (Broadcasting (DstMAC eth))) w) of
                      (err, w') \<Rightarrow> ((True, err), w'))
              else
                (let param = \<lparr> factory = factory',
                                finder = finder',
                                ethernet = eth,
                                ingress = ingress',
                                egress = node_Port (the dstNode),
                                rawPacket = packet \<rparr>
                 in case (if dev_ID (port_Device ingress')
                               = dev_ID (port_Device (node_Port (the dstNode)))
                          then localSwitching param w
                          else switching param w) of
                      (Some err, w') \<Rightarrow> ((False, Some (FailedToSwitch err)), w')
                    | (None, w') \<Rightarrow> ((True, None), w'))))"

subsection \<open>Cleaning up after a port went down\<close>

text \<open>\<open>removeFlow\<close>: a FLOW_MOD(DELETE) of the match, cookie mask \<open>0x1 << 63\<close>, table \<open>0xFF\<close>.\<close>

definition removeFlow :: "Factory \<Rightarrow> Device \<Rightarrow> Match \<Rightarrow> world \<Rightarrow> error option \<times> world" where
  "removeFlow f d match w =
     (let w1 = Log (Debug (RemovingOnDevice (dev_ID d))) w
      in case NewFlowMod f FlowDelete of
           Inl err \<Rightarrow> (Some err, w1)
         | Inr flowmod0 \<Rightarrow>
             (let flowmod = flowmod0\<lparr>fm_CookieMask := push_bit 63 0x1,
                                      fm_TableID := 0xFF,
                                      fm_FlowMatch := match\<rparr>
              in SendMessage d (MsgFlowMod flowmod) w1))"

text \<open>The \<open>range devices\<close> loop of \<open>removeAllFlows\<close>: a failure is logged, the loop goes on.\<close>

fun removeAllFlows_loop :: "Factory \<Rightarrow> Match \<Rightarrow> Device list \<Rightarrow> world \<Rightarrow> world" where
  "removeAllFlows_loop f match [] w = w"
| "removeAllFlows_loop f match (d # devices) w =
     (case removeFlow f d match w of
        (Some err, w') \<Rightarrow>
          removeAllFlows_loop f match devices (Log (Err (FailedDevice (dev_ID d) err)) w')
      | (None, w') \<Rightarrow> removeAllFlows_loop f match devices w')"

definition removeAllFlows :: "Factory \<Rightarrow> Finder \<Rightarrow> world \<Rightarrow> error option \<times> world" where
  "removeAllFlows f finder' w =
     (let w1 = Log (Debug RemovingAllFlows) w
      in case NewMatch f of
           Inl err \<Rightarrow> (Some err, w1)
         | Inr match \<Rightarrow> (None, removeAllFlows_loop f match (find_Devices finder') w1))"

text \<open>
  The \<open>range devices\<close> loop of \<open>removeFlowRules\<close>: per device a delete matching the
  source MAC, then one matching the destination MAC; the first failure is returned.
\<close>

fun removeFlowRules_loop :: "Factory \<Rightarrow> mac \<Rightarrow> Device list \<Rightarrow> world \<Rightarrow> error option \<times> world" where
  "removeFlowRules_loop f mac' [] w = (None, w)"
| "removeFlowRules_loop f mac' (d # devices) w =
     (let w1 = Log (Debug (RemovingNodeOnDevice mac' (dev_ID d))) w
      in case NewMatch f of
           Inl err \<Rightarrow> (Some err, w1)
         | Inr match0 \<Rightarrow>
             (case removeFlow f d (match0\<lparr>m_SrcMAC := Some mac'\<rparr>) w1 of
                (Some err, w2) \<Rightarrow> (Some err, w2)
              | (None, w2) \<Rightarrow>
                  (case NewMatch f of
                     Inl err \<Rightarrow> (Some err, w2)
                   | Inr match1 \<Rightarrow>
                       (case removeFlow f d (match1\<lparr>m_DstMAC := Some mac'\<rparr>) w2 of
                          (Some err, w3) \<Rightarrow> (Some err, w3)
                        | (None, w3) \<Rightarrow> removeFlowRules_loop f mac' devices w3))))"

definition removeFlowRules :: "Factory \<Rightarrow> Finder \<Rightarrow> mac \<Rightarrow> world \<Rightarrow> error option \<times> world" where
  "removeFlowRules f finder' mac' w = removeFlowRules_loop f mac' (find_Devices finder') w"

text \<open>The \<open>range nodes\<close> loop of \<open>cleanup\<close>: a failure is logged, the loop goes on.\<close>

fun cleanup_loop :: "Factory \<Rightarrow> Finder \<Rightarrow> mac list \<Rightarrow> world \<Rightarrow> world" where
  "cleanup_loop f finder' [] w = w"
| "cleanup_loop f finder' (n # nodes) w =
     (case removeFlowRules f finder' n (Log (Debug (RemovingNode n)) w) of
        (Some err, w') \<Rightarrow> cleanup_loop f finder' nodes (Log (Err (FailedNode n err)) w')
      | (None, w') \<Rightarrow> cleanup_loop f finder' nodes w')"

definition cleanup :: "Factory \<Rightarrow> Finder \<Rightarrow> Port \<Rightarrow> world \<Rightarrow> error option \<times> world" where
  "cleanup f finder' port w =
     (let w1 = Log (Debug (CleaningUp (dev_ID (port_Device port)) (port_Number port))) w
      in if find_IsEdge finder' port
         then removeAllFlows f finder' w1
         else (None, cleanup_loop f finder' (port_Nodes port) w1))"

definition ProcessEvent ::
  "Factory \<Rightarrow> Finder \<Rightarrow> Device \<Rightarrow> PortStatus \<Rightarrow> world \<Rightarrow> error option \<times> world" where
  "ProcessEvent f finder' device' status w =
     (if ps_IsPortDown status \<or> ps_IsLinkDown status
      then (case dev_Port device' (ps_Number status) of
              None \<Rightarrow> (Some (PortNotFound (ps_Number status) (dev_ID device')), w)
            | Some port \<Rightarrow> cleanup f finder' port w)
      else (None, w))"

text \<open>
  Modelled from the spec: the switch is not part of the repository. A delete with a
  cookie mask applies to an installed rule only when the rule's cookie agrees with the
  delete's cookie on every bit of the mask.
\<close>

definition delete_applies :: "FlowMod \<Rightarrow> 64 word \<Rightarrow> bool" where
  "delete_applies fm cookie = (cookie AND fm_CookieMask fm = fm_Cookie fm AND fm_CookieMask fm)"

section \<open>Vocabulary of the properties\<close>

text \<open>A factory none of whose constructors fails.\<close>

definition healthy :: "Factory \<Rightarrow> bool" where
  "healthy f =
     (fails_NewAction f = None \<and> fails_NewMatch f = None \<and> fails_NewInstruction f = None
      \<and> fails_NewPacketOut f = None \<and> fails_NewFlowMod f = None)"

text \<open>A world in which no call of \<open>SendMessage\<close> fails.\<close>

definition all_ok :: "world \<Rightarrow> bool" where
  "all_ok w = (\<forall>n. send_result w n = None)"

text \<open>The calls of \<open>SendMessage\<close> made between two worlds.\<close>

definition new_sends :: "world \<Rightarrow> world \<Rightarrow> (dpid \<times> message \<times> error option) list" where
  "new_sends w w' = drop (length (sends w)) (sends w')"

text \<open>
  The messages the properties speak of, field by field: the FLOW_MOD(ADD) of a device
  matching (in-port, ether-type, source MAC, destination MAC) with the one action
  OUTPUT(out-port); the FLOW_MOD(DELETE) of a match; the PACKET_OUT of a packet.
\<close>

definition flow_add :: "Device \<Rightarrow> 32 word \<Rightarrow> 16 word \<Rightarrow> mac \<Rightarrow> mac \<Rightarrow> 32 word \<Rightarrow> FlowMod" where
  "flow_add d p_in ety src dst p_out =
     \<lparr> fm_Command = FlowAdd, fm_Cookie = 0, fm_CookieMask = 0,
       fm_TableID = dev_FlowTableID d, fm_IdleTimeout = 30, fm_Priority = 10,
       fm_FlowMatch = \<lparr> m_InPort = Some (InPort_Value p_in), m_EtherType = Some ety,
                        m_SrcMAC = Some src, m_DstMAC = Some dst \<rparr>,
       fm_FlowInstruction =
         Some \<lparr> inst_ApplyAction = Some \<lparr> act_OutPort = Some (OutPort_Value p_out) \<rparr> \<rparr> \<rparr>"

definition flow_delete :: "Match \<Rightarrow> FlowMod" where
  "flow_delete match =
     \<lparr> fm_Command = FlowDelete, fm_Cookie = 0, fm_CookieMask = push_bit 63 1,
       fm_TableID = 0xFF, fm_IdleTimeout = 0, fm_Priority = 0,
       fm_FlowMatch = match, fm_FlowInstruction = None \<rparr>"

definition packet_out :: "InPort \<Rightarrow> OutPort \<Rightarrow> bytes \<Rightarrow> PacketOut" where
  "packet_out p_in p_out data =
     \<lparr> po_InPort = Some p_in, po_Action = Some \<lparr> act_OutPort = Some p_out \<rparr>, po_Data = data \<rparr>"

text \<open>The flow parameters of the opposite direction: MACs and ports swapped.\<close>

definition reversed :: "flowParam \<Rightarrow> flowParam" where
  "reversed p = p\<lparr>inPort := outPort p, outPort := inPort p, srcMAC := dstMAC p, dstMAC := srcMAC p\<rparr>"

text \<open>Is this call of \<open>SendMessage\<close> a FLOW_MOD(ADD), a PACKET_OUT?\<close>

fun is_flow_add :: "dpid \<times> message \<times> error option \<Rightarrow> bool" where
  "is_flow_add (d, MsgFlowMod fm, r) = (fm_Command fm = FlowAdd)"
| "is_flow_add (d, MsgPacketOut po, r) = False"

fun is_packet_out :: "dpid \<times> message \<times> error option \<Rightarrow> bool" where
  "is_packet_out (d, MsgPacketOut po, r) = True"
| "is_packet_out (d, MsgFlowMod fm, r) = False"

text \<open>
  A call of \<open>SendMessage\<close> that carries a guarded delete: a FLOW_MOD(DELETE) over all
  tables whose cookie mask is \<open>1 << 63\<close> and which applies to no rule whose cookie has
  its most significant bit set.
\<close>

definition guarded :: "dpid \<times> message \<times> error option \<Rightarrow> bool" where
  "guarded x =
     (\<exists>fm. fst (snd x) = MsgFlowMod fm \<and> fm_Command fm = FlowDelete
        \<and> fm_CookieMask fm = push_bit 63 1 \<and> fm_TableID fm = 0xFF
        \<and> (\<forall>cookie. bit cookie 63 \<longrightarrow> \<not> delete_applies fm cookie))"

text \<open>From one world to a later one, nothing but guarded deletes was sent.\<close>

definition grows :: "world \<Rightarrow> world \<Rightarrow> bool" where
  "grows w w' = (\<exists>xs. sends w' = sends w @ xs \<and> (\<forall>x\<in>set xs. guarded x))"

text \<open>
  The deletes of a cleanup in which every send succeeds: one wildcard delete per device,
  and, for a node, a source-MAC and a destination-MAC delete per device.
\<close>

definition wildcard_deletes :: "Device list \<Rightarrow> (dpid \<times> message \<times> error option) list" where
  "wildcard_deletes ds = map (\<lambda>d. (dev_ID d, MsgFlowMod (flow_delete wildcard), None)) ds"

definition node_deletes :: "mac \<Rightarrow> Device list \<Rightarrow> (dpid \<times> message \<times> error option) list" where
  "node_deletes m ds =
     concat (map (\<lambda>d.
        [(dev_ID d, MsgFlowMod (flow_delete (wildcard\<lparr>m_SrcMAC := Some m\<rparr>)), None),
         (dev_ID d, MsgFlowMod (flow_delete (wildcard\<lparr>m_DstMAC := Some m\<rparr>)), None)]) ds)"

section \<open>A small network for the scenarios\<close>

text \<open>
  Two switches A (datapath 1) and B (datapath 2); host S behind A's port 3, host D
  behind port 5 of A (in \<open>one_switch\<close>) or of B (in \<open>two_switches\<close>, where no path
  between A and B is known and port 9 of each switch is an inter-switch port).
\<close>

definition no_failure :: "nat \<Rightarrow> error option" where
  "no_failure n = None"

definition first_send_fails :: "nat \<Rightarrow> error option" where
  "first_send_fails n = (if n = 0 then Some (External ''i/o timeout'') else None)"

definition quiet_world :: world where
  "quiet_world = \<lparr> sends = [], logged = [], send_result = no_failure \<rparr>"

definition lossy_world :: world where
  "lossy_world = \<lparr> sends = [], logged = [], send_result = first_send_fails \<rparr>"

definition sound_factory :: Factory where
  "sound_factory = \<lparr> fails_NewAction = None, fails_NewMatch = None,
     fails_NewInstruction = None, fails_NewPacketOut = None, fails_NewFlowMod = None \<rparr>"

definition mac_S :: mac where
  "mac_S = [0x00, 0x00, 0x00, 0x00, 0x00, 0x01]"

definition mac_D :: mac where
  "mac_D = [0x00, 0x00, 0x00, 0x00, 0x00, 0x02]"

definition mac_bcast :: mac where
  "mac_bcast = [0xFF, 0xFF, 0xFF, 0xFF, 0xFF, 0xFF]"

definition sw_A :: Device where
  "sw_A = \<lparr> dev_ID = 1, dev_FlowTableID = 0,
            dev_Ports = [(3, [mac_S]), (5, [mac_D]), (9, [])] \<rparr>"

definition sw_B :: Device where
  "sw_B = \<lparr> dev_ID = 2, dev_FlowTableID = 0, dev_Ports = [(5, [mac_D]), (9, [])] \<rparr>"

definition port_A3 :: Port where
  "port_A3 = \<lparr> port_Device = sw_A, port_Number = 3, port_Nodes = [mac_S] \<rparr>"

definition port_A5 :: Port where
  "port_A5 = \<lparr> port_Device = sw_A, port_Number = 5, port_Nodes = [mac_D] \<rparr>"

definition port_B5 :: Port where
  "port_B5 = \<lparr> port_Device = sw_B, port_Number = 5, port_Nodes = [mac_D] \<rparr>"

definition one_switch :: Finder where
  "one_switch =
     \<lparr> find_Node = (\<lambda>m. if m = mac_D
                         then Some \<lparr> node_MAC = mac_D, node_Port = port_A5 \<rparr> else None),
       find_Path = (\<lambda>a b. None),
       find_IsEdge = (\<lambda>p. False),
       find_Devices = [sw_A] \<rparr>"

definition two_switches :: Finder where
  "two_switches =
     \<lparr> find_Node = (\<lambda>m. if m = mac_D
                         then Some \<lparr> node_MAC = mac_D, node_Port = port_B5 \<rparr> else None),
       find_Path = (\<lambda>a b. None),
       find_IsEdge = (\<lambda>p. port_Number p = 9),
       find_Devices = [sw_A, sw_B] \<rparr>"

definition frame :: "mac \<Rightarrow> Ethernet" where
  "frame dst = \<lparr> SrcMAC = mac_S, DstMAC = dst, Type = 0x0800, Payload = [0x45, 0x00] \<rparr>"

text \<open>A marshaller for the scenarios: destination, source, ether-type, payload.\<close>

definition wire :: "Ethernet \<Rightarrow> error + bytes" where
  "wire eth =
     Inr (DstMAC eth @ SrcMAC eth @ [ucast (drop_bit 8 (Type eth)), ucast (Type eth)]
          @ Payload eth)"

definition port_down :: "32 word \<Rightarrow> PortStatus" where
  "port_down n = \<lparr> ps_Number = n, ps_IsPortDown = True, ps_IsLinkDown = False \<rparr>"

definition link_down :: "32 word \<Rightarrow> PortStatus" where
  "link_down n = \<lparr> ps_Number = n, ps_IsPortDown = False, ps_IsLinkDown = True \<rparr>"

definition flow_S_to_D :: flowParam where
  "flow_S_to_D = \<lparr> device = sw_A, etherType = 0x0800, inPort = 3, outPort = 5,
                    srcMAC = mac_S, dstMAC = mac_D \<rparr>"

definition port_A9 :: Port where
  "port_A9 = \<lparr> port_Device = sw_A, port_Number = 9, port_Nodes = [] \<rparr>"

definition idle_manager :: "nat Manager" where
  "idle_manager = \<lparr> openflow = None, DPID = 1, AuxID = 0, NumBuffers = 256, NumTables = 1 \<rparr>"

definition live_manager :: "nat Manager" where
  "live_manager = \<lparr> openflow = Some \<lparr> handed = [], fault = None \<rparr>,
                     DPID = 1, AuxID = 0, NumBuffers = 256, NumTables = 1 \<rparr>"

definition web_rule :: "nat FlowRule" where
  "web_rule = \<lparr> Match = 7, Actions = [FlowActionOutput 40, FlowActionOutput 41],
                 IdleTimeout = 30, HardTimeout = 0 \<rparr>"

section \<open>Properties of the device manager\<close>

lemmas scenario_defs =
  no_failure_def first_send_fails_def quiet_world_def lossy_world_def sound_factory_def
  mac_S_def mac_D_def mac_bcast_def sw_A_def sw_B_def port_A3_def port_A5_def port_B5_def
  port_A9_def one_switch_def two_switches_def frame_def wire_def port_down_def link_down_def
  flow_S_to_D_def idle_manager_def live_manager_def web_rule_def

text \<open>
  C8 (as amended). The HELLO handler rejects wire version 0 and accepts every version
  from 1 upwards: version 1 is accepted, and so is version 4. The only test of the
  handler is \<open>msg.Version < 0x01\<close>.
\<close>

theorem hello_accepts_version_one_and_above:
  "(handleHelloMessage msg = None) = (1 \<le> Version msg)
   \<and> handleHelloMessage \<lparr> Version = 0 \<rparr> = Some (UnsupportedVersion 0)
   \<and> handleHelloMessage \<lparr> Version = 1 \<rparr> = None
   \<and> handleHelloMessage \<lparr> Version = 4 \<rparr> = None"
  by (simp add: handleHelloMessage_def flip: not_less)

text \<open>
  C8 as the specification states it (version 0 rejected, version 1 accepted, version 4
  rejected) does not hold of the handler: a HELLO of version 4 is accepted.
\<close>

theorem hello_version_four_counterexample:
  "\<not> (handleHelloMessage \<lparr> Version = 0 \<rparr> \<noteq> None
      \<and> handleHelloMessage \<lparr> Version = 1 \<rparr> = None
      \<and> handleHelloMessage \<lparr> Version = 4 \<rparr> \<noteq> None)"
  by (simp add: handleHelloMessage_def)

text \<open>
  C9. Once the session has ended (the transceiver pointer is \<open>nil\<close>), each of
  \<open>InstallFlowRule\<close>, \<open>RemoveFlowRule\<close> and \<open>SendPacketOut\<close> returns \<open>ErrDisconnected\<close>
  and leaves the manager as it was: nothing is handed to any transceiver.
\<close>

theorem disconnected_send_paths:
  assumes "openflow r = None"
  shows "InstallFlowRule r flow = (Some ErrDisconnected, r)
       \<and> RemoveFlowRule r match = (Some ErrDisconnected, r)
       \<and> SendPacketOut r inPort' actions packet = (Some ErrDisconnected, r)
       \<and> handed_by r = []"
  using assms
  by (simp add: InstallFlowRule_def RemoveFlowRule_def SendPacketOut_def handed_by_def)

theorem disconnected_send_paths_witness:
  "InstallFlowRule idle_manager web_rule = (Some ErrDisconnected, idle_manager)
   \<and> RemoveFlowRule idle_manager 7 = (Some ErrDisconnected, idle_manager)
   \<and> SendPacketOut idle_manager 3 [FlowActionOutput 40] [0x45] = (Some ErrDisconnected, idle_manager)
   \<and> handed_by idle_manager = []"
  using disconnected_send_paths [of idle_manager web_rule 7 3 "[FlowActionOutput 40]" "[0x45]"]
  by (simp add: idle_manager_def)

text \<open>
  C10. While the manager has a transceiver, \<open>InstallFlowRule\<close> hands it exactly one
  FLOW_MOD: its command is ADD, its flags are SendFlowRemoved and CheckOverlap, and its
  match, action list, idle timeout and hard timeout are those of the given rule. The
  call returns what the transceiver's send returned.
\<close>

theorem install_flow_rule_message:
  assumes "openflow r = Some t"
  shows "fst (InstallFlowRule r flow) = fault t
       \<and> handed_by (snd (InstallFlowRule r flow)) = handed_by r @
           [FlowModifyRequest
              \<lparr> fmm_Match = Match flow,
                fmm_Command = OFPFC_ADD,
                fmm_IdleTimeout = IdleTimeout flow,
                fmm_HardTimeout = HardTimeout flow,
                fmm_Flags = \<lparr> SendFlowRemoved = True, CheckOverlap = True \<rparr>,
                fmm_Actions = Actions flow \<rparr>]"
  using assms by (simp add: InstallFlowRule_def SendFlowModifyMessage_def handed_by_def)

theorem install_flow_rule_message_witness:
  "fst (InstallFlowRule live_manager web_rule) = None
   \<and> handed_by (snd (InstallFlowRule live_manager web_rule)) =
       [FlowModifyRequest
          \<lparr> fmm_Match = 7,
            fmm_Command = OFPFC_ADD,
            fmm_IdleTimeout = 30,
            fmm_HardTimeout = 0,
            fmm_Flags = \<lparr> SendFlowRemoved = True, CheckOverlap = True \<rparr>,
            fmm_Actions = [FlowActionOutput 40, FlowActionOutput 41] \<rparr>]"
  using install_flow_rule_message [of live_manager "\<lparr> handed = [], fault = None \<rparr>" web_rule]
  by (simp add: live_manager_def web_rule_def handed_by_def)

section \<open>Properties of the L2 switching policy\<close>

subsection \<open>What the building blocks send\<close>

lemmas policy_defs =
  ProcessPacket_def ProcessEvent_def cleanup_def removeAllFlows_def removeFlowRules_def
  removeFlow_def switching_def localSwitching_def setFlowRule_def installFlow_def
  packetout_def flood_def isBroadcast_def SendMessage_def Log_def dev_Port_def
  NewAction_def NewMatch_def NewInstruction_def NewPacketOut_def NewFlowMod_def

lemma SendMessage_eq:
  "SendMessage d m w =
     (send_result w (length (sends w)),
      w\<lparr>sends := sends w @ [(dev_ID d, m, send_result w (length (sends w)))]\<rparr>)"
  by (simp add: SendMessage_def Let_def)

lemma all_ok_simps [simp]:
  "all_ok (w\<lparr>sends := xs\<rparr>) = all_ok w"
  "all_ok (w\<lparr>logged := ys\<rparr>) = all_ok w"
  "all_ok (Log e w) = all_ok w"
  by (simp_all add: all_ok_def Log_def)

lemma SendMessage_ok:
  "all_ok w \<Longrightarrow> SendMessage d m w = (None, w\<lparr>sends := sends w @ [(dev_ID d, m, None)]\<rparr>)"
  by (simp add: SendMessage_eq all_ok_def)

lemma sends_Log [simp]: "sends (Log e w) = sends w"
  by (simp add: Log_def)

lemma send_result_Log [simp]: "send_result (Log e w) = send_result w"
  by (simp add: Log_def)

lemma installFlow_healthy:
  "healthy f \<Longrightarrow> installFlow f p w =
     SendMessage (device p)
       (MsgFlowMod (flow_add (device p) (inPort p) (etherType p) (srcMAC p) (dstMAC p)
                     (outPort p))) w"
  by (simp add: healthy_def installFlow_def NewMatch_def NewAction_def NewInstruction_def
      NewFlowMod_def flow_add_def wildcard_def)

lemma removeFlow_healthy:
  "fails_NewFlowMod f = None \<Longrightarrow> removeFlow f d match w =
     SendMessage d (MsgFlowMod (flow_delete match)) (Log (Debug (RemovingOnDevice (dev_ID d))) w)"
  by (simp add: removeFlow_def NewFlowMod_def flow_delete_def)

lemma packetout_healthy:
  "healthy f \<Longrightarrow> packetout f e packet w =
     SendMessage (port_Device e)
       (MsgPacketOut (packet_out InPort_Controller (OutPort_Value (port_Number e)) packet)) w"
  by (simp add: healthy_def packetout_def NewAction_def NewPacketOut_def packet_out_def)

lemma flood_healthy:
  "fails_NewAction f = None \<Longrightarrow> fails_NewPacketOut f = None \<Longrightarrow> flood f i packet w =
     SendMessage (port_Device i)
       (MsgPacketOut (packet_out (InPort_Value (port_Number i)) OutPort_Flood packet)) w"
  by (simp add: flood_def NewAction_def NewPacketOut_def packet_out_def)

lemma flow_add_inject:
  "(flow_add d a e s t b = flow_add d a' e' s' t' b')
     = (a = a' \<and> e = e' \<and> s = s' \<and> t = t' \<and> b = b')"
  by (auto simp add: flow_add_def)

lemma setFlowRule_healthy:
  assumes "healthy f" and "send_result w (length (sends w)) = None"
  shows "sends (snd (setFlowRule f p w)) = sends w @
      [(dev_ID (device p),
        MsgFlowMod (flow_add (device p) (inPort p) (etherType p) (srcMAC p) (dstMAC p)
                      (outPort p)), None),
       (dev_ID (device p),
        MsgFlowMod (flow_add (device p) (inPort p) (etherType p) (srcMAC p) (dstMAC p)
                      (outPort p)), send_result w (Suc (length (sends w))))]"
  using assms by (simp add: setFlowRule_def installFlow_healthy SendMessage_eq)

subsection \<open>Packets\<close>

text \<open>
  C1 (as amended). Let the frame marshal, let its destination MAC be known and not the
  broadcast address, and let the ingress device differ from the device of the
  destination node. If the path between the two devices is \<open>nil\<close> or empty,
  \<open>ProcessPacket\<close> sends nothing (no flow is installed, no packet forwarded), logs that
  no path was found, and returns drop = true with no error.
\<close>

theorem no_path_returns_drop_true:
  assumes "marshal eth = Inr packet"
    and "find_Node fd (DstMAC eth) = Some n"
    and "\<not> isBroadcast eth"
    and "dev_ID (port_Device ingress') \<noteq> dev_ID (port_Device (node_Port n))"
    and "slice (find_Path fd (dev_ID (port_Device ingress'))
                             (dev_ID (port_Device (node_Port n)))) = []"
  shows "ProcessPacket marshal f fd eth ingress' w
           = ((True, None), Log (Debug (NotFoundPath (SrcMAC eth) (DstMAC eth))) w)
       \<and> new_sends w (snd (ProcessPacket marshal f fd eth ingress' w)) = []"
  using assms by (auto simp add: ProcessPacket_def switching_def new_sends_def)

theorem no_path_returns_drop_true_witness:
  "ProcessPacket wire sound_factory two_switches (frame mac_D) port_A3 quiet_world
     = ((True, None), Log (Debug (NotFoundPath mac_S mac_D)) quiet_world)
   \<and> new_sends quiet_world
        (snd (ProcessPacket wire sound_factory two_switches (frame mac_D) port_A3 quiet_world))
     = []"
  using no_path_returns_drop_true [of wire "frame mac_D" "projr (wire (frame mac_D))"
      two_switches "\<lparr> node_MAC = mac_D, node_Port = port_B5 \<rparr>" port_A3 sound_factory
      quiet_world]
  by (simp add: scenario_defs isBroadcast_def new_sends_def)

text \<open>
  C1 as the specification states it (drop = false) does not hold: with destination D
  learned on switch B, the packet arriving on switch A and no path from A to B, the
  policy returns drop = true.
\<close>

theorem no_path_drop_false_counterexample:
  "find_Node two_switches (DstMAC (frame mac_D))
     = Some \<lparr> node_MAC = mac_D, node_Port = port_B5 \<rparr>
   \<and> dev_ID (port_Device port_A3) \<noteq> dev_ID (port_Device port_B5)
   \<and> find_Path two_switches (dev_ID (port_Device port_A3)) (dev_ID (port_Device port_B5))
       = None
   \<and> fst (ProcessPacket wire sound_factory two_switches (frame mac_D) port_A3 quiet_world)
       = (True, None)"
  by (simp add: scenario_defs policy_defs)

lemma local_switching_exact:
  assumes "marshal eth = Inr packet"
    and "find_Node fd (DstMAC eth) = Some n"
    and "\<not> isBroadcast eth"
    and "dev_ID (port_Device ingress') = dev_ID (port_Device (node_Port n))"
    and "healthy f" and "all_ok w"
  shows "fst (ProcessPacket marshal f fd eth ingress' w) = (True, None)"
    and "new_sends w (snd (ProcessPacket marshal f fd eth ingress' w)) =
      [(dev_ID (port_Device ingress'),
        MsgFlowMod (flow_add (port_Device ingress') (port_Number ingress') (Type eth)
                     (SrcMAC eth) (DstMAC eth) (port_Number (node_Port n))), None),
       (dev_ID (port_Device ingress'),
        MsgFlowMod (flow_add (port_Device ingress') (port_Number ingress') (Type eth)
                     (SrcMAC eth) (DstMAC eth) (port_Number (node_Port n))), None),
       (dev_ID (port_Device ingress'),
        MsgPacketOut (packet_out InPort_Controller
                        (OutPort_Value (port_Number (node_Port n))) packet), None)]"
  using assms
  by (simp_all add: ProcessPacket_def localSwitching_def setFlowRule_def installFlow_healthy
      packetout_healthy SendMessage_ok new_sends_def)

text \<open>
  C2 (as amended). Let the frame marshal, let its destination MAC be known, not
  broadcast and learned on the ingress device, and let the factory and every send
  succeed. Then the policy makes exactly three sends, all to the ingress device and all
  successful: first a FLOW_MOD(ADD) matching (in-port, ether-type, source MAC,
  destination MAC) with the single action OUTPUT(p_out), priority 10 and idle timeout
  30; then one more FLOW_MOD(ADD); then one PACKET_OUT out of p_out carrying the
  marshalled packet. It returns drop = true with no error.
\<close>

theorem local_switch_flow_then_packet_out:
  assumes "marshal eth = Inr packet"
    and "find_Node fd (DstMAC eth) = Some n"
    and "\<not> isBroadcast eth"
    and "dev_ID (port_Device ingress') = dev_ID (port_Device (node_Port n))"
    and "healthy f" and "all_ok w"
  shows "fst (ProcessPacket marshal f fd eth ingress' w) = (True, None)
    \<and> (\<exists>fm. fm_Command fm = FlowAdd
          \<and> new_sends w (snd (ProcessPacket marshal f fd eth ingress' w)) =
         [(dev_ID (port_Device ingress'),
           MsgFlowMod (flow_add (port_Device ingress') (port_Number ingress') (Type eth)
                        (SrcMAC eth) (DstMAC eth) (port_Number (node_Port n))), None),
          (dev_ID (port_Device ingress'), MsgFlowMod fm, None),
          (dev_ID (port_Device ingress'),
           MsgPacketOut (packet_out InPort_Controller
                           (OutPort_Value (port_Number (node_Port n))) packet), None)])
    \<and> length (filter is_flow_add
                (new_sends w (snd (ProcessPacket marshal f fd eth ingress' w)))) = 2
    \<and> length (filter is_packet_out
                (new_sends w (snd (ProcessPacket marshal f fd eth ingress' w)))) = 1"
proof -
  let ?fwd = "flow_add (port_Device ingress') (port_Number ingress') (Type eth)
                (SrcMAC eth) (DstMAC eth) (port_Number (node_Port n))"
  have add: "fm_Command ?fwd = FlowAdd"
    by (simp add: flow_add_def)
  have sent: "new_sends w (snd (ProcessPacket marshal f fd eth ingress' w)) =
      [(dev_ID (port_Device ingress'), MsgFlowMod ?fwd, None),
       (dev_ID (port_Device ingress'), MsgFlowMod ?fwd, None),
       (dev_ID (port_Device ingress'),
        MsgPacketOut (packet_out InPort_Controller
                        (OutPort_Value (port_Number (node_Port n))) packet), None)]"
    using assms by (rule local_switching_exact(2))
  have res: "fst (ProcessPacket marshal f fd eth ingress' w) = (True, None)"
    using assms by (rule local_switching_exact(1))
  have ex: "\<exists>fm. fm_Command fm = FlowAdd
          \<and> new_sends w (snd (ProcessPacket marshal f fd eth ingress' w)) =
         [(dev_ID (port_Device ingress'), MsgFlowMod ?fwd, None),
          (dev_ID (port_Device ingress'), MsgFlowMod fm, None),
          (dev_ID (port_Device ingress'),
           MsgPacketOut (packet_out InPort_Controller
                           (OutPort_Value (port_Number (node_Port n))) packet), None)]"
    using add sent by blast
  have counts: "length (filter is_flow_add
                  (new_sends w (snd (ProcessPacket marshal f fd eth ingress' w)))) = 2
    \<and> length (filter is_packet_out
                  (new_sends w (snd (ProcessPacket marshal f fd eth ingress' w)))) = 1"
    by (simp add: sent add)
  from res ex counts show ?thesis
    by blast
qed

theorem local_switch_flow_then_packet_out_witness:
  "fst (ProcessPacket wire sound_factory one_switch (frame mac_D) port_A3 quiet_world)
     = (True, None)
   \<and> (\<exists>fm. fm_Command fm = FlowAdd
         \<and> new_sends quiet_world
         (snd (ProcessPacket wire sound_factory one_switch (frame mac_D) port_A3 quiet_world))
       = [(1, MsgFlowMod (flow_add sw_A 3 0x0800 mac_S mac_D 5), None),
          (1, MsgFlowMod fm, None),
          (1, MsgPacketOut (packet_out InPort_Controller (OutPort_Value 5)
                              (projr (wire (frame mac_D)))), None)])
   \<and> length (filter is_flow_add
        (new_sends quiet_world
          (snd (ProcessPacket wire sound_factory one_switch (frame mac_D) port_A3
                  quiet_world)))) = 2
   \<and> length (filter is_packet_out
        (new_sends quiet_world
          (snd (ProcessPacket wire sound_factory one_switch (frame mac_D) port_A3
                  quiet_world)))) = 1"
  using local_switch_flow_then_packet_out [of wire "frame mac_D"
      "projr (wire (frame mac_D))" one_switch "\<lparr> node_MAC = mac_D, node_Port = port_A5 \<rparr>"
      port_A3 sound_factory quiet_world]
  by (simp add: scenario_defs isBroadcast_def healthy_def all_ok_def packet_out_def)

text \<open>
  C2 as the specification states it (exactly one FLOW_MOD(ADD)) does not hold: in the
  local-switching scenario the policy sends two.
\<close>

theorem local_switch_one_flow_mod_counterexample:
  "length (filter is_flow_add
     (sends (snd (ProcessPacket wire sound_factory one_switch (frame mac_D) port_A3
                    quiet_world)))) = 2"
  by (simp add: scenario_defs policy_defs wildcard_def)

text \<open>
  C3. With a factory that succeeds and a first send that succeeds, \<open>setFlowRule\<close> sends
  the forward FLOW_MOD(ADD) of its parameters twice, to the same device, and nothing
  else; unless the parameters are their own reverse, the flow with MACs and ports
  swapped is not among what it sends.
\<close>

theorem setFlowRule_installs_forward_twice:
  assumes "healthy f" and "send_result w (length (sends w)) = None"
  shows "new_sends w (snd (setFlowRule f p w)) =
      [(dev_ID (device p),
        MsgFlowMod (flow_add (device p) (inPort p) (etherType p) (srcMAC p) (dstMAC p)
                      (outPort p)), None),
       (dev_ID (device p),
        MsgFlowMod (flow_add (device p) (inPort p) (etherType p) (srcMAC p) (dstMAC p)
                      (outPort p)), send_result w (Suc (length (sends w))))]
    \<and> (reversed p \<noteq> p \<longrightarrow>
        MsgFlowMod (flow_add (device p) (outPort p) (etherType p) (dstMAC p) (srcMAC p)
                      (inPort p))
          \<notin> (fst \<circ> snd) ` set (new_sends w (snd (setFlowRule f p w))))"
proof -
  have "\<not> (outPort p = inPort p \<and> dstMAC p = srcMAC p)" if "reversed p \<noteq> p"
    using that by (cases p) (auto simp add: reversed_def)
  then show ?thesis
    by (auto simp add: new_sends_def setFlowRule_healthy [OF assms] flow_add_inject)
qed

theorem setFlowRule_installs_forward_twice_witness:
  "new_sends quiet_world (snd (setFlowRule sound_factory flow_S_to_D quiet_world)) =
      [(1, MsgFlowMod (flow_add sw_A 3 0x0800 mac_S mac_D 5), None),
       (1, MsgFlowMod (flow_add sw_A 3 0x0800 mac_S mac_D 5), None)]
   \<and> reversed flow_S_to_D \<noteq> flow_S_to_D
   \<and> MsgFlowMod (flow_add sw_A 5 0x0800 mac_D mac_S 3)
        \<notin> (fst \<circ> snd) `
            set (new_sends quiet_world (snd (setFlowRule sound_factory flow_S_to_D quiet_world)))"
  using setFlowRule_installs_forward_twice [of sound_factory quiet_world flow_S_to_D]
  by (simp add: scenario_defs healthy_def reversed_def flow_add_inject)

text \<open>
  C4. Let the frame marshal and the two constructors of \<open>flood\<close> succeed. If the
  destination MAC is the broadcast address or has no learned node, \<open>ProcessPacket\<close>
  makes exactly one send: a PACKET_OUT to the ingress device, in-port the ingress port,
  with the single action OUTPUT(FLOOD), carrying the marshalled packet. No flow is
  installed, drop = true is returned, and the error returned is what that send returned.
\<close>

theorem flood_on_broadcast_or_unknown:
  assumes "marshal eth = Inr packet"
    and "find_Node fd (DstMAC eth) = None \<or> isBroadcast eth"
    and "fails_NewAction f = None" and "fails_NewPacketOut f = None"
  shows "fst (ProcessPacket marshal f fd eth ingress' w)
           = (True, send_result w (length (sends w)))
       \<and> new_sends w (snd (ProcessPacket marshal f fd eth ingress' w)) =
           [(dev_ID (port_Device ingress'),
             MsgPacketOut (packet_out (InPort_Value (port_Number ingress')) OutPort_Flood
                             packet),
             send_result w (length (sends w)))]"
  using assms
  by (auto simp add: ProcessPacket_def flood_healthy SendMessage_eq new_sends_def)

theorem flood_on_broadcast_or_unknown_witness:
  "isBroadcast (frame mac_bcast)
   \<and> fst (ProcessPacket wire sound_factory two_switches (frame mac_bcast) port_A3 quiet_world)
       = (True, None)
   \<and> new_sends quiet_world
        (snd (ProcessPacket wire sound_factory two_switches (frame mac_bcast) port_A3
                quiet_world)) =
       [(1, MsgPacketOut (packet_out (InPort_Value 3) OutPort_Flood
                            (mac_bcast @ mac_S @ [0x08, 0x00, 0x45, 0x00])), None)]"
  using flood_on_broadcast_or_unknown [of wire "frame mac_bcast"
      "projr (wire (frame mac_bcast))" two_switches sound_factory port_A3 quiet_world]
  by (simp add: scenario_defs isBroadcast_def packet_out_def)

subsection \<open>Cleanup sends guarded deletes only\<close>

lemma grows_refl [simp]: "grows w w"
  by (simp add: grows_def)

lemma grows_trans: "grows w w' \<Longrightarrow> grows w' w'' \<Longrightarrow> grows w w''"
  by (fastforce simp add: grows_def)

lemma grows_Log [simp]: "grows w (Log e w)"
  by (simp add: grows_def)

lemma grows_Log_right: "grows w w' \<Longrightarrow> grows w (Log e w')"
  by (simp add: grows_def)

lemma grows_Log_left: "grows (Log e w) w' \<Longrightarrow> grows w w'"
  by (simp add: grows_def)

lemma msb_mask: "bit (cookie AND push_bit 63 (1::64 word)) 63 = bit cookie 63"
  by (simp only: bit_and_iff bit_push_bit_iff bit_1_iff) simp

lemma msb_clear:
  assumes "cookie AND (9223372036854775808::64 word) = 0"
  shows "\<not> bit cookie 63"
proof -
  have "(9223372036854775808::64 word) = push_bit 63 1"
    by simp
  with assms have "cookie AND push_bit 63 (1::64 word) = 0"
    by (simp only:)
  then have "bit (cookie AND push_bit 63 (1::64 word)) 63 = bit (0::64 word) 63"
    by (simp only:)
  then show ?thesis
    by (simp only: msb_mask) simp
qed

lemma flow_delete_guarded: "guarded (d, MsgFlowMod (flow_delete match), r)"
proof -
  have "\<not> delete_applies (flow_delete match) cookie" if "bit cookie 63" for cookie
  proof
    assume "delete_applies (flow_delete match) cookie"
    then have "cookie AND (9223372036854775808::64 word) = 0"
      by (simp add: delete_applies_def flow_delete_def)
    with that show False
      by (simp add: msb_clear)
  qed
  then show ?thesis
    by (simp add: guarded_def flow_delete_def)
qed

lemma removeFlow_grows: "grows w (snd (removeFlow f d match w))"
proof (cases "fails_NewFlowMod f")
  case None
  then show ?thesis
    by (simp add: removeFlow_healthy SendMessage_eq grows_def flow_delete_guarded)
next
  case (Some e)
  then show ?thesis
    by (simp add: removeFlow_def NewFlowMod_def)
qed

lemma removeAllFlows_loop_grows: "grows w (removeAllFlows_loop f match ds w)"
proof (induction ds arbitrary: w)
  case Nil
  show ?case by simp
next
  case (Cons d ds)
  obtain r w' where rf: "removeFlow f d match w = (r, w')"
    by (cases "removeFlow f d match w")
  have g: "grows w w'"
    using removeFlow_grows [of w f d match] rf by simp
  show ?case
  proof (cases r)
    case None
    with rf show ?thesis
      using grows_trans [OF g Cons.IH [of w']] by simp
  next
    case (Some e)
    with rf show ?thesis
      using grows_trans [OF grows_Log_right [OF g] Cons.IH] by simp
  qed
qed

lemma removeAllFlows_grows: "grows w (snd (removeAllFlows f fd w))"
  by (auto simp add: removeAllFlows_def NewMatch_def split: option.split
      intro: grows_Log_left removeAllFlows_loop_grows)

lemma removeFlowRules_loop_grows: "grows w (snd (removeFlowRules_loop f m ds w))"
proof (induction ds arbitrary: w)
  case Nil
  show ?case by simp
next
  case (Cons d ds)
  show ?case
  proof (cases "fails_NewMatch f")
    case (Some e)
    then show ?thesis by (simp add: NewMatch_def)
  next
    case None
    let ?w1 = "Log (Debug (RemovingNodeOnDevice m (dev_ID d))) w"
    obtain r2 w2 where s1: "removeFlow f d (wildcard\<lparr>m_SrcMAC := Some m\<rparr>) ?w1 = (r2, w2)"
      by (cases "removeFlow f d (wildcard\<lparr>m_SrcMAC := Some m\<rparr>) ?w1")
    have g2: "grows w w2"
      using removeFlow_grows [of ?w1 f d "wildcard\<lparr>m_SrcMAC := Some m\<rparr>"] s1
      by (simp add: grows_Log_left)
    obtain r3 w3 where s2: "removeFlow f d (wildcard\<lparr>m_DstMAC := Some m\<rparr>) w2 = (r3, w3)"
      by (cases "removeFlow f d (wildcard\<lparr>m_DstMAC := Some m\<rparr>) w2")
    have g3: "grows w w3"
      using removeFlow_grows [of w2 f d "wildcard\<lparr>m_DstMAC := Some m\<rparr>"] s2 g2
      by (auto intro: grows_trans)
    show ?thesis
      using None s1 s2 g2 g3 grows_trans [OF g3 Cons.IH [of w3]]
      by (cases r2; cases r3) (simp_all add: NewMatch_def)
  qed
qed

lemma removeFlowRules_grows: "grows w (snd (removeFlowRules f fd m w))"
  by (simp add: removeFlowRules_def removeFlowRules_loop_grows)

lemma cleanup_loop_grows: "grows w (cleanup_loop f fd ns w)"
proof (induction ns arbitrary: w)
  case Nil
  show ?case by simp
next
  case (Cons n ns)
  let ?w1 = "Log (Debug (RemovingNode n)) w"
  obtain r w' where rf: "removeFlowRules f fd n ?w1 = (r, w')"
    by (cases "removeFlowRules f fd n ?w1")
  have g: "grows w w'"
    using removeFlowRules_grows [of ?w1 f fd n] rf by (simp add: grows_Log_left)
  show ?case
  proof (cases r)
    case None
    with rf show ?thesis
      using grows_trans [OF g Cons.IH [of w']] by simp
  next
    case (Some e)
    with rf show ?thesis
      using grows_trans [OF grows_Log_right [OF g] Cons.IH] by simp
  qed
qed

lemma cleanup_grows: "grows w (snd (cleanup f fd port w))"
  by (auto simp add: cleanup_def Let_def
      intro: grows_Log_left removeAllFlows_grows cleanup_loop_grows)

lemma ProcessEvent_grows: "grows w (snd (ProcessEvent f fd dev st w))"
  by (simp add: ProcessEvent_def cleanup_grows split: option.split)

lemma grows_new_sends: "grows w w' \<Longrightarrow> \<forall>x\<in>set (new_sends w w'). guarded x"
  by (auto simp add: grows_def new_sends_def)

text \<open>
  C5. Whatever the factory and the sends do, every message sent by the cleanup path
  (by \<open>removeFlow\<close>, by \<open>removeAllFlows\<close> and \<open>removeFlowRules\<close> that call it, and by
  \<open>ProcessEvent\<close> as a whole) is a FLOW_MOD(DELETE) whose cookie mask is exactly
  \<open>1 << 63\<close> and whose table ID is \<open>0xFF\<close>; so it applies to no rule whose cookie has
  its most significant bit set, the mark of a table-miss rule.
\<close>

theorem cleanup_deletes_are_guarded:
  "(\<forall>x\<in>set (new_sends w (snd (removeFlow f d match w))). guarded x)
   \<and> (\<forall>x\<in>set (new_sends w (snd (removeAllFlows f fd w))). guarded x)
   \<and> (\<forall>x\<in>set (new_sends w (snd (removeFlowRules f fd m w))). guarded x)
   \<and> (\<forall>x\<in>set (new_sends w (snd (ProcessEvent f fd dev st w))). guarded x)"
  by (intro conjI grows_new_sends removeFlow_grows removeAllFlows_grows
      removeFlowRules_grows ProcessEvent_grows)

theorem cleanup_deletes_are_guarded_witness:
  "(2, MsgFlowMod (flow_delete wildcard), None)
     \<in> set (new_sends lossy_world
              (snd (ProcessEvent sound_factory two_switches sw_A (link_down 9) lossy_world)))
   \<and> guarded (2, MsgFlowMod (flow_delete wildcard), None)
   \<and> fm_CookieMask (flow_delete wildcard) = 0x8000000000000000
   \<and> fm_TableID (flow_delete wildcard) = 0xFF"
proof -
  have mem: "(2, MsgFlowMod (flow_delete wildcard), None)
     \<in> set (new_sends lossy_world
              (snd (ProcessEvent sound_factory two_switches sw_A (link_down 9) lossy_world)))"
    by (simp add: scenario_defs policy_defs new_sends_def flow_delete_def Let_def)
  have "\<forall>x\<in>set (new_sends lossy_world
              (snd (ProcessEvent sound_factory two_switches sw_A (link_down 9) lossy_world))).
          guarded x"
    using cleanup_deletes_are_guarded
      [of lossy_world sound_factory sw_A wildcard two_switches mac_D sw_A "link_down 9"]
    by blast
  with mem have "guarded (2, MsgFlowMod (flow_delete wildcard), None)"
    by blast
  with mem show ?thesis
    by (simp add: flow_delete_def)
qed

subsection \<open>Cleanup after a port or link went down\<close>

lemma removeFlow_ok:
  "fails_NewFlowMod f = None \<Longrightarrow> all_ok w \<Longrightarrow>
   removeFlow f d match w =
     (None, (Log (Debug (RemovingOnDevice (dev_ID d))) w)
              \<lparr>sends := sends w @ [(dev_ID d, MsgFlowMod (flow_delete match), None)]\<rparr>)"
  by (simp add: removeFlow_healthy SendMessage_ok)

lemma removeAllFlows_loop_ok:
  "fails_NewFlowMod f = None \<Longrightarrow> all_ok w \<Longrightarrow>
   sends (removeAllFlows_loop f wildcard ds w) = sends w @ wildcard_deletes ds"
  by (induction ds arbitrary: w) (simp_all add: wildcard_deletes_def removeFlow_ok)

lemma removeFlowRules_loop_ok:
  "fails_NewFlowMod f = None \<Longrightarrow> fails_NewMatch f = None \<Longrightarrow> all_ok w \<Longrightarrow>
   fst (removeFlowRules_loop f m ds w) = None
   \<and> all_ok (snd (removeFlowRules_loop f m ds w))
   \<and> sends (snd (removeFlowRules_loop f m ds w)) = sends w @ node_deletes m ds"
  by (induction ds arbitrary: w) (simp_all add: node_deletes_def removeFlow_ok NewMatch_def)

lemma cleanup_loop_ok:
  "fails_NewFlowMod f = None \<Longrightarrow> fails_NewMatch f = None \<Longrightarrow> all_ok w \<Longrightarrow>
   sends (cleanup_loop f fd ns w)
     = sends w @ concat (map (\<lambda>m. node_deletes m (find_Devices fd)) ns)"
proof (induction ns arbitrary: w)
  case Nil
  show ?case by simp
next
  case (Cons n ns)
  let ?w1 = "Log (Debug (RemovingNode n)) w"
  obtain r w' where rf: "removeFlowRules_loop f n (find_Devices fd) ?w1 = (r, w')"
    by (cases "removeFlowRules_loop f n (find_Devices fd) ?w1")
  have "r = None \<and> all_ok w' \<and> sends w' = sends w @ node_deletes n (find_Devices fd)"
    using removeFlowRules_loop_ok [of f ?w1 n "find_Devices fd"] rf Cons.prems by simp
  then show ?case
    using rf Cons.IH [of w'] Cons.prems by (simp add: removeFlowRules_def)
qed

text \<open>
  C6. Let a PORT_STATUS report port-down or link-down for a port the device has, and
  let the factory and every send succeed. If the port is an inter-switch edge, the
  cleanup sends exactly one FLOW_MOD(DELETE) with the wildcard match to each known
  switch, in order. Otherwise it sends, for each node learned behind the port and, per
  node, for each known switch, exactly two FLOW_MOD(DELETE)s: one matching the node's
  MAC as source, then one matching it as destination.
\<close>

theorem port_down_cleanup_deletes:
  assumes "ps_IsPortDown st \<or> ps_IsLinkDown st"
    and "dev_Port dev (ps_Number st) = Some port"
    and "fails_NewMatch f = None" and "fails_NewFlowMod f = None"
    and "all_ok w"
  shows "new_sends w (snd (ProcessEvent f fd dev st w)) =
     (if find_IsEdge fd port
      then map (\<lambda>d. (dev_ID d, MsgFlowMod (flow_delete wildcard), None)) (find_Devices fd)
      else concat (map (\<lambda>m. concat (map (\<lambda>d.
             [(dev_ID d, MsgFlowMod (flow_delete (wildcard\<lparr>m_SrcMAC := Some m\<rparr>)), None),
              (dev_ID d, MsgFlowMod (flow_delete (wildcard\<lparr>m_DstMAC := Some m\<rparr>)), None)])
             (find_Devices fd))) (port_Nodes port)))"
  using assms
  by (simp add: ProcessEvent_def cleanup_def removeAllFlows_def NewMatch_def new_sends_def
      removeAllFlows_loop_ok cleanup_loop_ok wildcard_deletes_def node_deletes_def)

theorem port_down_cleanup_deletes_witness:
  "new_sends quiet_world
     (snd (ProcessEvent sound_factory two_switches sw_A (link_down 9) quiet_world))
     = [(1, MsgFlowMod (flow_delete wildcard), None),
        (2, MsgFlowMod (flow_delete wildcard), None)]
   \<and> new_sends quiet_world
       (snd (ProcessEvent sound_factory two_switches sw_B (port_down 5) quiet_world))
     = [(1, MsgFlowMod (flow_delete (wildcard\<lparr>m_SrcMAC := Some mac_D\<rparr>)), None),
        (1, MsgFlowMod (flow_delete (wildcard\<lparr>m_DstMAC := Some mac_D\<rparr>)), None),
        (2, MsgFlowMod (flow_delete (wildcard\<lparr>m_SrcMAC := Some mac_D\<rparr>)), None),
        (2, MsgFlowMod (flow_delete (wildcard\<lparr>m_DstMAC := Some mac_D\<rparr>)), None)]"
  using port_down_cleanup_deletes [of "link_down 9" sw_A port_A9 sound_factory quiet_world
      two_switches]
    port_down_cleanup_deletes [of "port_down 5" sw_B port_B5 sound_factory quiet_world
      two_switches]
  by (simp add: scenario_defs dev_Port_def all_ok_def)

text \<open>
  C7. Port 5 of switch B, behind which node D is learned, goes down while switches A
  and B are known, and the first send fails. \<open>removeFlowRules\<close> returns at that failure:
  the failure is logged, but the destination-MAC delete for switch A and both deletes
  for switch B are never sent. In the same world the cleanup of an inter-switch port
  (\<open>removeAllFlows\<close>) logs the failure and goes on to switch B.
\<close>

theorem node_cleanup_stops_at_failed_send:
  "sends (snd (ProcessEvent sound_factory two_switches sw_B (port_down 5) lossy_world)) =
     [(1, MsgFlowMod (flow_delete (wildcard\<lparr>m_SrcMAC := Some mac_D\<rparr>)),
       Some (External ''i/o timeout''))]
   \<and> logged (snd (ProcessEvent sound_factory two_switches sw_B (port_down 5) lossy_world)) =
     [Debug (CleaningUp 2 5), Debug (RemovingNode mac_D),
      Debug (RemovingNodeOnDevice mac_D 1), Debug (RemovingOnDevice 1),
      Err (FailedNode mac_D (External ''i/o timeout''))]
   \<and> sends (snd (ProcessEvent sound_factory two_switches sw_A (link_down 9) lossy_world)) =
     [(1, MsgFlowMod (flow_delete wildcard), Some (External ''i/o timeout'')),
      (2, MsgFlowMod (flow_delete wildcard), None)]"
  by (simp add: scenario_defs policy_defs wildcard_def flow_delete_def Let_def)

end
